theory Spec2Isabelle
  imports Main
begin

section \<open>Data model\<close>

text \<open>
  The request handlers of \<^verbatim>\<open>app/routes/user.py\<close> are embedded as HOL functions.
  The user table is a list of rows (its order is the order \<^verbatim>\<open>query(User).all()\<close>
  returns). The column \<^verbatim>\<open>id\<close> is called \<open>user_id\<close> here, and a handler's path
  parameter \<^verbatim>\<open>id\<close> is called \<open>ident\<close>, because \<open>id\<close> is HOL's identity function.
\<close>

record User =
  user_id :: int
  username :: string
  email :: string
  password_hash :: string

text \<open>The request bodies \<^verbatim>\<open>UserCreate\<close> and \<^verbatim>\<open>UserLogin\<close>, with the attributes the
  handlers read.\<close>

record UserCreate =
  uc_username :: string
  uc_email :: string
  uc_password :: string

record UserLogin =
  ul_username :: string
  ul_password :: string

type_synonym db = "User list"

text \<open>A decoded token payload is a dictionary; the handlers only read its \<^verbatim>\<open>"sub"\<close> entry.\<close>

type_synonym claims = "(string \<times> string) list"

text \<open>
  Every \<^verbatim>\<open>raise\<close> of the handlers and of their collaborators is a value of \<open>error\<close>.
  \<open>HTTPException\<close> carries the status code and the detail message (the
  \<^verbatim>\<open>WWW-Authenticate\<close> header of the 401 is not modelled). \<open>KeyError\<close> is what the
  subscript \<^verbatim>\<open>current_user["sub"]\<close> raises on a payload without that key.
\<close>

datatype error =
  HTTPException nat string
| KeyError string
| Conflict
| IntegrityError
| RequestValidationError

text \<open>Values of a response body.\<close>

datatype json = JInt int | JStr string | JList "json list" | JDict "(string \<times> json) list"

record UserResponse =
  access_token :: string
  token_type :: string
  message :: string
  user :: "(string \<times> json) list"

section \<open>Python primitives used by the handlers\<close>

text \<open>\<^verbatim>\<open>str(n)\<close> for an integer: the decimal digits, with a minus sign below zero.\<close>

definition digit_char :: "nat \<Rightarrow> char" where
  "digit_char d = char_of (48 + d)"

fun digits :: "nat \<Rightarrow> string" where
  "digits n = (if n < 10 then [digit_char n] else digits (n div 10) @ [digit_char (n mod 10)])"

declare digits.simps [simp del]

definition str :: "int \<Rightarrow> string" where
  "str i = (if i < 0 then CHR ''-'' # digits (nat (- i)) else digits (nat i))"

text \<open>The subscript \<^verbatim>\<open>d[k]\<close> of a dictionary.\<close>

definition getitem :: "claims \<Rightarrow> string \<Rightarrow> error + string" where
  "getitem d k = (case map_of d k of None \<Rightarrow> Inl (KeyError k) | Some v \<Rightarrow> Inr v)"

text \<open>\<^verbatim>\<open>Query.first()\<close>: the first row of the result, or \<^verbatim>\<open>None\<close>.\<close>

definition first :: "'a list \<Rightarrow> 'a option" where
  "first rows = (case rows of [] \<Rightarrow> None | r # _ \<Rightarrow> Some r)"

text \<open>
  \<^verbatim>\<open>db.query(User).filter(User.id == id, User.username == sub)\<close>: the rows that satisfy
  both conditions.
\<close>

definition query_owned :: "db \<Rightarrow> int \<Rightarrow> string \<Rightarrow> User list" where
  "query_owned d ident sub = filter (\<lambda>u. user_id u = ident \<and> username u = sub) d"

text \<open>
  \<^verbatim>\<open>db.commit()\<close>. The persistence engine is an external collaborator: which tables it
  accepts (its integrity constraints) is the parameter \<open>commit_ok\<close>. A refused commit
  raises and leaves the table as it was.
\<close>

definition commit :: "(db \<Rightarrow> bool) \<Rightarrow> db \<Rightarrow> error + db" where
  "commit commit_ok d = (if commit_ok d then Inr d else Inl IntegrityError)"

text \<open>
  The unit of work writes a changed object back to the row with the object's primary key,
  and \<^verbatim>\<open>db.delete(obj)\<close> removes the row with the object's primary key. The handlers
  assign \<^verbatim>\<open>username\<close> and \<^verbatim>\<open>email\<close> only, so these two columns are written.
\<close>

definition flush_update :: "db \<Rightarrow> User \<Rightarrow> db" where
  "flush_update d obj =
     map (\<lambda>r. if user_id r = user_id obj
               then r\<lparr>username := username obj, email := email obj\<rparr> else r) d"

definition flush_delete :: "db \<Rightarrow> User \<Rightarrow> db" where
  "flush_delete d obj = filter (\<lambda>r. user_id r \<noteq> user_id obj) d"

section \<open>Response models\<close>

text \<open>
  Modelled from the spec: the schema \<^verbatim>\<open>UserOut\<close> of \<^verbatim>\<open>app/schemas/user.py\<close> is not part
  of the sources at hand. The spec gives the outward form of a user record as
  \<open>{id, username, email}\<close>, "sans password".
\<close>

definition UserOut :: "User \<Rightarrow> json" where
  "UserOut u =
     JDict [(''id'', JInt (user_id u)), (''username'', JStr (username u)),
            (''email'', JStr (email u))]"

text \<open>The body of a \<^verbatim>\<open>UserResponse\<close>, of a \<^verbatim>\<open>Dict[str, str]\<close> and of a \<^verbatim>\<open>List[UserOut]\<close>.\<close>

definition UserResponse_json :: "UserResponse \<Rightarrow> json" where
  "UserResponse_json r =
     JDict [(''access_token'', JStr (access_token r)), (''token_type'', JStr (token_type r)),
            (''message'', JStr (message r)), (''user'', JDict (user r))]"

definition Dict_json :: "(string \<times> string) list \<Rightarrow> json" where
  "Dict_json d = JDict (map (\<lambda>kv. (fst kv, JStr (snd kv))) d)"

text \<open>The field names that occur in a response body, at any depth.\<close>

fun field_names :: "json \<Rightarrow> string list"
  and field_names_list :: "json list \<Rightarrow> string list"
  and field_names_dict :: "(string \<times> json) list \<Rightarrow> string list" where
  "field_names (JInt _) = []"
| "field_names (JStr _) = []"
| "field_names (JList xs) = field_names_list xs"
| "field_names (JDict kvs) = field_names_dict kvs"
| "field_names_list [] = []"
| "field_names_list (x # xs) = field_names x @ field_names_list xs"
| "field_names_dict [] = []"
| "field_names_dict (kv # kvs) = fst kv # field_names (snd kv) @ field_names_dict kvs"

section \<open>The handlers\<close>

text \<open>
  The token codec (\<^verbatim>\<open>create_access_token\<close>, \<^verbatim>\<open>decode_access_token\<close>) and the services
  (\<^verbatim>\<open>create_user\<close>, \<^verbatim>\<open>authenticate_user\<close>) are imported by the module; each handler takes
  the ones it calls as parameters. A handler that writes to the table returns the table
  with its result.
\<close>

definition get_current_user :: "(string \<Rightarrow> claims option) \<Rightarrow> string \<Rightarrow> error + claims" where
  "get_current_user decode_access_token token =
     (case decode_access_token token of
        None \<Rightarrow> Inl (HTTPException 401 ''Invalid authentication credentials'')
      | Some payload \<Rightarrow>
          if payload = [] then Inl (HTTPException 401 ''Invalid authentication credentials'')
          else Inr payload)"

definition register ::
  "(string \<Rightarrow> claims option) \<Rightarrow> (claims \<Rightarrow> string) \<Rightarrow> (UserCreate \<Rightarrow> db \<Rightarrow> (error + User) \<times> db) \<Rightarrow>
   UserCreate \<Rightarrow> string \<Rightarrow> db \<Rightarrow> (error + UserResponse) \<times> db" where
  "register decode_access_token create_access_token create_user usr token d =
     (case get_current_user decode_access_token token of
        Inl e \<Rightarrow> (Inl e, d)
      | Inr current_user \<Rightarrow>
          (case create_user usr d of
             (Inl e, d') \<Rightarrow> (Inl e, d')
           | (Inr db_user, d') \<Rightarrow>
               (Inr \<lparr>access_token = create_access_token [(''sub'', username db_user)],
                     token_type = ''bearer'',
                     message = ''User registered successfully'',
                     user = [(''id'', JStr (str (user_id db_user))),
                             (''username'', JStr (username db_user)),
                             (''email'', JStr (email db_user))]\<rparr>, d')))"

definition login ::
  "(db \<Rightarrow> string \<Rightarrow> string \<Rightarrow> User option) \<Rightarrow> (claims \<Rightarrow> string) \<Rightarrow>
   UserLogin \<Rightarrow> db \<Rightarrow> error + (string \<times> string) list" where
  "login authenticate_user create_access_token usr d =
     (case authenticate_user d (ul_username usr) (ul_password usr) of
        None \<Rightarrow> Inl (HTTPException 401 ''Invalid credentials'')
      | Some db_user \<Rightarrow>
          Inr [(''access_token'', create_access_token [(''sub'', username db_user)]),
               (''token_type'', ''bearer'')])"

definition read_users_me ::
  "(string \<Rightarrow> claims option) \<Rightarrow> int \<Rightarrow> string \<Rightarrow> db \<Rightarrow> error + User" where
  "read_users_me decode_access_token ident token d =
     (case get_current_user decode_access_token token of
        Inl e \<Rightarrow> Inl e
      | Inr current_user \<Rightarrow>
          (case getitem current_user ''sub'' of
             Inl e \<Rightarrow> Inl e
           | Inr sub \<Rightarrow>
               (case first (query_owned d ident sub) of
                  None \<Rightarrow> Inl (HTTPException 404 ''User not found'')
                | Some usr \<Rightarrow> Inr usr)))"

definition update_user ::
  "(db \<Rightarrow> bool) \<Rightarrow> (string \<Rightarrow> claims option) \<Rightarrow> int \<Rightarrow> UserCreate \<Rightarrow> string \<Rightarrow> db \<Rightarrow>
   (error + User) \<times> db" where
  "update_user commit_ok decode_access_token ident usr token d =
     (case get_current_user decode_access_token token of
        Inl e \<Rightarrow> (Inl e, d)
      | Inr current_user \<Rightarrow>
          (case getitem current_user ''sub'' of
             Inl e \<Rightarrow> (Inl e, d)
           | Inr sub \<Rightarrow>
               (case first (query_owned d ident sub) of
                  None \<Rightarrow> (Inl (HTTPException 404 ''User not found''), d)
                | Some db_user \<Rightarrow>
                    (let db_user' = db_user\<lparr>username := uc_username usr, email := uc_email usr\<rparr>
                     in case commit commit_ok (flush_update d db_user') of
                          Inl e \<Rightarrow> (Inl e, d)
                        | Inr d' \<Rightarrow> (Inr db_user', d')))))"

definition delete_user_me ::
  "(db \<Rightarrow> bool) \<Rightarrow> (string \<Rightarrow> claims option) \<Rightarrow> int \<Rightarrow> string \<Rightarrow> db \<Rightarrow>
   (error + (string \<times> string) list) \<times> db" where
  "delete_user_me commit_ok decode_access_token ident token d =
     (case get_current_user decode_access_token token of
        Inl e \<Rightarrow> (Inl e, d)
      | Inr current_user \<Rightarrow>
          (case getitem current_user ''sub'' of
             Inl e \<Rightarrow> (Inl e, d)
           | Inr sub \<Rightarrow>
               (case first (query_owned d ident sub) of
                  None \<Rightarrow> (Inl (HTTPException 404 ''User not found''), d)
                | Some db_user \<Rightarrow>
                    (case commit commit_ok (flush_delete d db_user) of
                       Inl e \<Rightarrow> (Inl e, d)
                     | Inr d' \<Rightarrow> (Inr [(''message'', ''User deleted successfully'')], d')))))"

definition read_users_all :: "(string \<Rightarrow> claims option) \<Rightarrow> string \<Rightarrow> db \<Rightarrow> error + User list" where
  "read_users_all decode_access_token token d =
     (case get_current_user decode_access_token token of
        Inl e \<Rightarrow> Inl e
      | Inr current_user \<Rightarrow> Inr d)"

text \<open>
  What a route sends: the framework passes the handler's return value through the route's
  \<^verbatim>\<open>response_model\<close>; an exception becomes the error response unchanged.
\<close>

definition response_model :: "('a \<Rightarrow> json) \<Rightarrow> error + 'a \<Rightarrow> error + json" where
  "response_model schema r = (case r of Inl e \<Rightarrow> Inl e | Inr v \<Rightarrow> Inr (schema v))"

definition List_of :: "('a \<Rightarrow> json) \<Rightarrow> 'a list \<Rightarrow> json" where
  "List_of schema rows = JList (map schema rows)"

text \<open>The subject a token carries for the handlers: the \<^verbatim>\<open>"sub"\<close> entry of its payload, when
  \<open>get_current_user\<close> accepts the token and the entry exists.\<close>

definition token_subject :: "(string \<Rightarrow> claims option) \<Rightarrow> string \<Rightarrow> string option" where
  "token_subject decode_access_token token =
     (case get_current_user decode_access_token token of
        Inl e \<Rightarrow> None
      | Inr payload \<Rightarrow> map_of payload ''sub'')"

section \<open>Collaborators described by the spec\<close>

text \<open>
  Modelled from the spec: \<^verbatim>\<open>create_user\<close> of \<^verbatim>\<open>app/services/user_service.py\<close> is not part
  of the sources at hand. The spec (4.2, create): "hashes the password, persists a new
  record; fails with Conflict when username already exists". The hash function and the
  store's choice of the new id are parameters.
\<close>

definition create_user ::
  "(string \<Rightarrow> string) \<Rightarrow> (db \<Rightarrow> int) \<Rightarrow> UserCreate \<Rightarrow> db \<Rightarrow> (error + User) \<times> db" where
  "create_user hash_password assign_id usr d =
     (if uc_username usr \<in> set (map username d) then (Inl Conflict, d)
      else (let db_user = \<lparr>user_id = assign_id d, username = uc_username usr,
                             email = uc_email usr,
                             password_hash = hash_password (uc_password usr)\<rparr>
            in (Inr db_user, d @ [db_user])))"

text \<open>
  Modelled from the spec: \<^verbatim>\<open>authenticate_user\<close> of \<^verbatim>\<open>app/services/user_service.py\<close> is not
  part of the sources at hand. The spec (4.2, authenticate): "looks up the user by
  username; if found, compares password against password_hash; returns the user on match,
  None otherwise". The comparison is a parameter.
\<close>

definition authenticate_user ::
  "(string \<Rightarrow> string \<Rightarrow> bool) \<Rightarrow> db \<Rightarrow> string \<Rightarrow> string \<Rightarrow> User option" where
  "authenticate_user verify_password d name password =
     (case first (filter (\<lambda>u. username u = name) d) of
        None \<Rightarrow> None
      | Some u \<Rightarrow> if verify_password password (password_hash u) then Some u else None)"

text \<open>
  Modelled from the spec: the token codec of \<^verbatim>\<open>app/auth/jwt_handler.py\<close> is not part of the
  sources at hand. The spec (8): "for all tokens issued for subject S, verify on that token
  returns sub == S" (until expiry; time is not modelled).
\<close>

definition codec_roundtrip :: "(claims \<Rightarrow> string) \<Rightarrow> (string \<Rightarrow> claims option) \<Rightarrow> bool" where
  "codec_roundtrip create_access_token decode_access_token =
     (\<forall>s. \<exists>payload. decode_access_token (create_access_token [(''sub'', s)]) = Some payload
                    \<and> map_of payload ''sub'' = Some s)"

section \<open>The route table\<close>

text \<open>
  The decorators of the module, in the order in which they register the routes on the
  router (paths relative to the prefix \<^verbatim>\<open>/users\<close>, split at the slashes).
\<close>

datatype http_method = GET | POST | PUT | DELETE

datatype handler = Register | Login | ReadUsersMe | UpdateUser | DeleteUserMe | ReadUsersAll

datatype segment = Lit string | Param string

type_synonym route = "http_method \<times> segment list \<times> handler"

definition routes :: "route list" where
  "routes =
     [(POST, [Lit ''register''], Register),
      (POST, [Lit ''login''], Login),
      (GET, [Param ''id''], ReadUsersMe),
      (PUT, [Param ''id''], UpdateUser),
      (DELETE, [Param ''id''], DeleteUserMe),
      (GET, [Lit ''all''], ReadUsersAll)]"

text \<open>
  The router's matching: a literal segment matches itself, a parameter without a converter
  matches any non-empty segment and binds it as text. The routes are tried in the order of
  their registration and the first one whose method and path match takes the request. The
  conversion of a bound parameter to the handler's declared type comes after the choice of
  the route.
\<close>

fun match_path :: "segment list \<Rightarrow> string list \<Rightarrow> (string \<times> string) list option" where
  "match_path [] [] = Some []"
| "match_path (Lit l # ps) (s # ss) =
     (if s = l then match_path ps ss else None)"
| "match_path (Param n # ps) (s # ss) =
     (if s = [] then None
      else (case match_path ps ss of None \<Rightarrow> None | Some bs \<Rightarrow> Some ((n, s) # bs)))"
| "match_path _ _ = None"

fun dispatch :: "route list \<Rightarrow> http_method \<Rightarrow> string list \<Rightarrow> (handler \<times> (string \<times> string) list) option" where
  "dispatch [] m path = None"
| "dispatch ((m', pat, h) # rs) m path =
     (if m' = m
      then (case match_path pat path of
              Some bs \<Rightarrow> Some (h, bs)
            | None \<Rightarrow> dispatch rs m path)
      else dispatch rs m path)"

text \<open>
  Decimal integer literals: an optional sign, then digits. \<open>parse_int\<close> reads such a
  literal; it is the inverse of \<open>str\<close>.
\<close>

definition digit_val :: "char \<Rightarrow> nat option" where
  "digit_val c =
     (if 48 \<le> (of_char c :: nat) \<and> (of_char c :: nat) \<le> 57 then Some (of_char c - 48) else None)"

fun parse_digits :: "nat \<Rightarrow> string \<Rightarrow> nat option" where
  "parse_digits acc [] = Some acc"
| "parse_digits acc (c # cs) =
     (case digit_val c of None \<Rightarrow> None | Some v \<Rightarrow> parse_digits (10 * acc + v) cs)"

definition parse_int :: "string \<Rightarrow> int option" where
  "parse_int s =
     (case s of
        [] \<Rightarrow> None
      | c # cs \<Rightarrow>
          if c = CHR ''-'' then (if cs = [] then None else map_option (\<lambda>n. - int n) (parse_digits 0 cs))
          else if c = CHR ''+'' then (if cs = [] then None else map_option int (parse_digits 0 cs))
          else map_option int (parse_digits 0 s))"

text \<open>
  The parameter \<^verbatim>\<open>id: int\<close>. The framework converts the bound text to an integer before
  the handler's body runs, and answers with a validation error (status 422) when it
  cannot. Which texts it converts (blanks around the digits, underscores between them, a
  fraction of zeros) depends on the framework and is the parameter \<open>to_int\<close>. The model
  fixes only what every conversion in base ten does: a text with an ASCII letter in it is
  no integer.
\<close>

definition ascii_letter :: "char \<Rightarrow> bool" where
  "ascii_letter c =
     ((65 \<le> (of_char c :: nat) \<and> (of_char c :: nat) \<le> 90)
      \<or> (97 \<le> (of_char c :: nat) \<and> (of_char c :: nat) \<le> 122))"

definition int_path_param :: "(string \<Rightarrow> int option) \<Rightarrow> string \<Rightarrow> error + int" where
  "int_path_param to_int s =
     (if list_ex ascii_letter s then Inl RequestValidationError
      else (case to_int s of None \<Rightarrow> Inl RequestValidationError | Some i \<Rightarrow> Inr i))"

text \<open>
  A GET request as the application answers it: the router chooses the route, the
  framework converts the path parameter, the handler runs and its value passes through
  the route's response model. A path that no route matches is answered 404. The token is
  the one of the \<^verbatim>\<open>Authorization\<close> header. Only the two GET routes can be chosen for a
  GET request; the last case is there to make the function total.
\<close>

definition serve_get ::
  "(string \<Rightarrow> claims option) \<Rightarrow> (string \<Rightarrow> int option) \<Rightarrow> string list \<Rightarrow> string \<Rightarrow> db \<Rightarrow>
   error + json" where
  "serve_get decode_access_token to_int path token d =
     (case dispatch routes GET path of
        None \<Rightarrow> Inl (HTTPException 404 ''Not Found'')
      | Some (h, bs) \<Rightarrow>
          (case h of
             ReadUsersMe \<Rightarrow>
               (case map_of bs ''id'' of
                  None \<Rightarrow> Inl RequestValidationError
                | Some s \<Rightarrow>
                    (case int_path_param to_int s of
                       Inl e \<Rightarrow> Inl e
                     | Inr ident \<Rightarrow>
                         response_model UserOut (read_users_me decode_access_token ident token d)))
           | ReadUsersAll \<Rightarrow>
               response_model (List_of UserOut) (read_users_all decode_access_token token d)
           | _ \<Rightarrow> Inl (HTTPException 405 ''Method Not Allowed'')))"

section \<open>Example data\<close>

text \<open>A two-row table and a toy codec, used to run the handlers on concrete requests.\<close>

definition alice :: User where
  "alice = \<lparr>user_id = 1, username = ''alice'', email = ''a@x.com'', password_hash = ''h:p1''\<rparr>"

definition bob :: User where
  "bob = \<lparr>user_id = 2, username = ''bob'', email = ''b@x.com'', password_hash = ''h:p2''\<rparr>"

definition ex_db :: db where
  "ex_db = [alice, bob]"

definition ex_create_token :: "claims \<Rightarrow> string" where
  "ex_create_token d = ''tok.'' @ (case map_of d ''sub'' of None \<Rightarrow> [] | Some s \<Rightarrow> s)"

definition ex_decode_token :: "string \<Rightarrow> claims option" where
  "ex_decode_token t = (if take 4 t = ''tok.'' then Some [(''sub'', drop 4 t)] else None)"

definition ex_hash :: "string \<Rightarrow> string" where
  "ex_hash p = ''h:'' @ p"

definition ex_verify :: "string \<Rightarrow> string \<Rightarrow> bool" where
  "ex_verify p h = (h = ex_hash p)"

definition ex_assign_id :: "db \<Rightarrow> int" where
  "ex_assign_id d = fold max (map user_id d) 0 + 1"

definition ex_commit_ok :: "db \<Rightarrow> bool" where
  "ex_commit_ok d = distinct (map username d)"

definition carol :: UserCreate where
  "carol = \<lparr>uc_username = ''carol'', uc_email = ''c@x.com'', uc_password = ''p3''\<rparr>"

section \<open>Shared facts\<close>

abbreviation Unauthenticated :: error where
  "Unauthenticated \<equiv> HTTPException 401 ''Invalid authentication credentials''"

abbreviation NotFound :: error where
  "NotFound \<equiv> HTTPException 404 ''User not found''"

lemma get_current_user_invalid:
  "decode token = None \<or> decode token = Some [] \<Longrightarrow> get_current_user decode token = Inl Unauthenticated"
  by (auto simp: get_current_user_def)

lemma get_current_user_valid:
  "decode token = Some payload \<Longrightarrow> payload \<noteq> [] \<Longrightarrow> get_current_user decode token = Inr payload"
  by (simp add: get_current_user_def)

lemma token_subject_SomeD:
  "token_subject decode token = Some s \<Longrightarrow>
     \<exists>payload. get_current_user decode token = Inr payload \<and> getitem payload ''sub'' = Inr s"
  by (auto simp: token_subject_def getitem_def split: sum.splits)

lemma token_subject_SomeI:
  "get_current_user decode token = Inr payload \<Longrightarrow> getitem payload ''sub'' = Inr s \<Longrightarrow>
     token_subject decode token = Some s"
  by (auto simp: token_subject_def getitem_def split: option.splits)

lemma first_eq_None: "first rows = None \<longleftrightarrow> rows = []"
  by (simp add: first_def split: list.splits)

lemma first_filter_SomeD: "first (filter P rows) = Some r \<Longrightarrow> r \<in> set rows \<and> P r"
proof -
  assume "first (filter P rows) = Some r"
  then obtain rest where "filter P rows = r # rest"
    by (auto simp: first_def split: list.splits)
  then have "r \<in> set (filter P rows)" by simp
  then show ?thesis by simp
qed

lemma query_owned_SomeD:
  "first (query_owned d ident sub) = Some r \<Longrightarrow> r \<in> set d \<and> user_id r = ident \<and> username r = sub"
  unfolding query_owned_def by (drule first_filter_SomeD) simp

lemma query_owned_foreign:
  assumes "distinct (map user_id d)" "U \<in> set d" "sub \<noteq> username U"
  shows "query_owned d (user_id U) sub = []"
proof -
  have "\<And>r. r \<in> set d \<Longrightarrow> user_id r = user_id U \<Longrightarrow> r = U"
    using assms(1,2) by (meson distinct_map inj_onD)
  with assms(3) show ?thesis
    by (auto simp: query_owned_def filter_empty_conv)
qed

lemmas handler_defs = get_current_user_def register_def login_def read_users_me_def
  update_user_def delete_user_me_def read_users_all_def getitem_def first_def query_owned_def
  commit_def flush_update_def flush_delete_def token_subject_def response_model_def Let_def

lemmas ex_defs = alice_def bob_def ex_db_def ex_create_token_def ex_decode_token_def ex_hash_def
  ex_verify_def ex_assign_id_def ex_commit_ok_def carol_def

section \<open>The ownership rule\<close>

text \<open>
  C1. Let the table respect its primary key (no two rows with the same id) and let U be a
  stored row. A Get-by-id, Update or Delete request with id = U.id and a token that is
  accepted and whose subject differs from U.username fails with 404 "User not found", and
  Update and Delete leave the table as it was. Conversely, when one of the three handlers
  succeeds for an id, a stored row with that id has the token's subject as its username.
\<close>

theorem ownership_rule:
  "(distinct (map user_id d) \<and> U \<in> set d \<and> token_subject decode token = Some sub \<and> sub \<noteq> username U \<longrightarrow>
      read_users_me decode (user_id U) token d = Inl NotFound
    \<and> update_user ok decode (user_id U) body token d = (Inl NotFound, d)
    \<and> delete_user_me ok decode (user_id U) token d = (Inl NotFound, d))
  \<and> (read_users_me decode ident token d = Inr r \<longrightarrow>
        r \<in> set d \<and> user_id r = ident \<and> token_subject decode token = Some (username r))
  \<and> (update_user ok decode ident body token d = (Inr r', d') \<longrightarrow>
        (\<exists>r \<in> set d. user_id r = ident \<and> token_subject decode token = Some (username r)))
  \<and> (delete_user_me ok decode ident token d = (Inr m, d') \<longrightarrow>
        (\<exists>r \<in> set d. user_id r = ident \<and> token_subject decode token = Some (username r)))"
proof -
  have foreign: "read_users_me decode (user_id U) token d = Inl NotFound
      \<and> update_user ok decode (user_id U) body token d = (Inl NotFound, d)
      \<and> delete_user_me ok decode (user_id U) token d = (Inl NotFound, d)"
    if a: "distinct (map user_id d) \<and> U \<in> set d \<and> token_subject decode token = Some sub \<and> sub \<noteq> username U"
  proof -
    obtain payload where p: "get_current_user decode token = Inr payload" "getitem payload ''sub'' = Inr sub"
      using a token_subject_SomeD by blast
    from a have q: "query_owned d (user_id U) sub = []" by (simp add: query_owned_foreign)
    show ?thesis
      by (simp add: read_users_me_def update_user_def delete_user_me_def p q first_def)
  qed
  have get: "r \<in> set d \<and> user_id r = ident \<and> token_subject decode token = Some (username r)"
    if h: "read_users_me decode ident token d = Inr r"
  proof -
    obtain payload sub where p: "get_current_user decode token = Inr payload"
      "getitem payload ''sub'' = Inr sub" "first (query_owned d ident sub) = Some r"
      using h by (auto simp: read_users_me_def split: sum.splits option.splits)
    from query_owned_SomeD[OF p(3)] token_subject_SomeI[OF p(1,2)] show ?thesis by simp
  qed
  have upd: "\<exists>r \<in> set d. user_id r = ident \<and> token_subject decode token = Some (username r)"
    if h: "update_user ok decode ident body token d = (Inr r', d')"
  proof -
    obtain payload sub r where p: "get_current_user decode token = Inr payload"
      "getitem payload ''sub'' = Inr sub" "first (query_owned d ident sub) = Some r"
      using h by (auto simp: update_user_def split: sum.splits option.splits)
    from query_owned_SomeD[OF p(3)] token_subject_SomeI[OF p(1,2)] show ?thesis by auto
  qed
  have del: "\<exists>r \<in> set d. user_id r = ident \<and> token_subject decode token = Some (username r)"
    if h: "delete_user_me ok decode ident token d = (Inr m, d')"
  proof -
    obtain payload sub r where p: "get_current_user decode token = Inr payload"
      "getitem payload ''sub'' = Inr sub" "first (query_owned d ident sub) = Some r"
      using h by (auto simp: delete_user_me_def split: sum.splits option.splits)
    from query_owned_SomeD[OF p(3)] token_subject_SomeI[OF p(1,2)] show ?thesis by auto
  qed
  from foreign get upd del show ?thesis by blast
qed


text \<open>
  The rule on the example table: alice's token does not reach bob's row (id 2), and reaches
  her own row (id 1) through each of the three handlers.
\<close>

theorem ownership_rule_witness:
  "(distinct (map user_id ex_db) \<and> bob \<in> set ex_db
      \<and> token_subject ex_decode_token ''tok.alice'' = Some ''alice'' \<and> ''alice'' \<noteq> username bob)
   \<and> read_users_me ex_decode_token (user_id bob) ''tok.alice'' ex_db = Inl NotFound
   \<and> update_user ex_commit_ok ex_decode_token (user_id bob) carol ''tok.alice'' ex_db = (Inl NotFound, ex_db)
   \<and> delete_user_me ex_commit_ok ex_decode_token (user_id bob) ''tok.alice'' ex_db = (Inl NotFound, ex_db)
   \<and> read_users_me ex_decode_token 1 ''tok.alice'' ex_db = Inr alice
   \<and> update_user ex_commit_ok ex_decode_token 1 carol ''tok.alice'' ex_db
        = (Inr (alice\<lparr>username := ''carol'', email := ''c@x.com''\<rparr>),
           [alice\<lparr>username := ''carol'', email := ''c@x.com''\<rparr>, bob])
   \<and> delete_user_me ex_commit_ok ex_decode_token 1 ''tok.alice'' ex_db
        = (Inr [(''message'', ''User deleted successfully'')], [bob])
   \<and> (\<exists>r \<in> set ex_db. user_id r = 1 \<and> token_subject ex_decode_token ''tok.alice'' = Some (username r))"
proof -
  have h: "distinct (map user_id ex_db) \<and> bob \<in> set ex_db
      \<and> token_subject ex_decode_token ''tok.alice'' = Some ''alice'' \<and> ''alice'' \<noteq> username bob"
    by (simp add: handler_defs ex_defs)
  have g: "read_users_me ex_decode_token 1 ''tok.alice'' ex_db = Inr alice"
    by (simp add: handler_defs ex_defs)
  have u: "update_user ex_commit_ok ex_decode_token 1 carol ''tok.alice'' ex_db
        = (Inr (alice\<lparr>username := ''carol'', email := ''c@x.com''\<rparr>),
           [alice\<lparr>username := ''carol'', email := ''c@x.com''\<rparr>, bob])"
    by (simp add: handler_defs ex_defs)
  have e: "delete_user_me ex_commit_ok ex_decode_token 1 ''tok.alice'' ex_db
        = (Inr [(''message'', ''User deleted successfully'')], [bob])"
    by (simp add: handler_defs ex_defs)
  note t = ownership_rule [where d = ex_db and U = bob and decode = ex_decode_token
      and token = "''tok.alice''" and sub = "''alice''" and ok = ex_commit_ok and body = carol
      and ident = 1 and r = alice]
  from h g u e t [where m = "[(''message'', ''User deleted successfully'')]" and d' = "[bob]"]
  show ?thesis by blast
qed

section \<open>Authentication comes first\<close>

text \<open>
  C2. When the codec rejects the token (the decoder returns nothing, or an empty payload),
  each of register, get-by-id, update, delete and list-all fails with 401 "Invalid
  authentication credentials"; the answer is the same for every table and every
  \<open>create_user\<close>, and the table is returned as it was. An invalid-token register creates
  no user.
\<close>

theorem invalid_token_unauthenticated:
  assumes "decode token = None \<or> decode token = Some []"
  shows "register decode create make_user body token d = (Inl Unauthenticated, d)
       \<and> read_users_me decode ident token d = Inl Unauthenticated
       \<and> update_user ok decode ident body token d = (Inl Unauthenticated, d)
       \<and> delete_user_me ok decode ident token d = (Inl Unauthenticated, d)
       \<and> read_users_all decode token d = Inl Unauthenticated"
proof -
  have "get_current_user decode token = Inl Unauthenticated"
    using assms by (rule get_current_user_invalid)
  then show ?thesis
    by (simp add: register_def read_users_me_def update_user_def delete_user_me_def
        read_users_all_def)
qed

text \<open>A token the example codec rejects, on the example table: five times 401, and the
  table keeps its two rows.\<close>

theorem invalid_token_unauthenticated_witness:
  "ex_decode_token ''garbage'' = None
   \<and> register ex_decode_token ex_create_token (create_user ex_hash ex_assign_id) carol ''garbage'' ex_db
        = (Inl Unauthenticated, [alice, bob])
   \<and> read_users_me ex_decode_token 1 ''garbage'' ex_db = Inl Unauthenticated
   \<and> update_user ex_commit_ok ex_decode_token 1 carol ''garbage'' ex_db = (Inl Unauthenticated, [alice, bob])
   \<and> delete_user_me ex_commit_ok ex_decode_token 1 ''garbage'' ex_db = (Inl Unauthenticated, [alice, bob])
   \<and> read_users_all ex_decode_token ''garbage'' ex_db = Inl Unauthenticated"
proof -
  have h: "ex_decode_token ''garbage'' = None"
    by (simp add: ex_decode_token_def)
  then have "ex_decode_token ''garbage'' = None \<or> ex_decode_token ''garbage'' = Some []" ..
  from invalid_token_unauthenticated [where decode = ex_decode_token and token = "''garbage''"
      and create = ex_create_token and make_user = "create_user ex_hash ex_assign_id"
      and body = carol and d = ex_db and ident = 1 and ok = ex_commit_ok, OF this] h
  show ?thesis by (simp add: ex_db_def)
qed

section \<open>List-all\<close>

text \<open>
  The handler \<open>read_users_all\<close>, called with a token the codec accepts, returns every row
  of the table, in the table's order, and the response model writes each row with the
  fields id, username and email.
\<close>

lemma read_users_all_returns_table:
  assumes "decode token = Some payload" and "payload \<noteq> []"
  shows "read_users_all decode token d = Inr d
       \<and> response_model (List_of UserOut) (read_users_all decode token d) = Inr (JList (map UserOut d))
       \<and> list_all (\<lambda>u. field_names (UserOut u) = [''id'', ''username'', ''email'']) d"
proof -
  have "get_current_user decode token = Inr payload"
    using assms by (rule get_current_user_valid)
  then have "read_users_all decode token d = Inr d"
    by (simp add: read_users_all_def)
  moreover have "list_all (\<lambda>u. field_names (UserOut u) = [''id'', ''username'', ''email'']) d"
    by (simp add: list_all_iff UserOut_def)
  ultimately show ?thesis
    by (simp add: response_model_def List_of_def)
qed

section \<open>Decimal rendering\<close>

lemma digit_val_digit_char: "k < 10 \<Longrightarrow> digit_val (digit_char k) = Some k"
  by (simp add: digit_val_def digit_char_def)

lemma parse_digits_append:
  "parse_digits acc (xs @ ys) =
     (case parse_digits acc xs of None \<Rightarrow> None | Some v \<Rightarrow> parse_digits v ys)"
  by (induction xs arbitrary: acc) (auto split: option.splits)

lemma parse_digits_digits: "parse_digits 0 (digits n) = Some n"
proof (induction n rule: digits.induct)
  case (1 n)
  show ?case
  proof (cases "n < 10")
    case True
    then show ?thesis
      by (subst digits.simps) (simp add: digit_val_digit_char)
  next
    case False
    with 1 have "parse_digits 0 (digits (n div 10)) = Some (n div 10)" by simp
    with False show ?thesis
      by (subst digits.simps) (simp add: parse_digits_append digit_val_digit_char)
  qed
qed

lemma digits_head: "\<exists>k cs. k < 10 \<and> digits n = digit_char k # cs"
proof (induction n rule: digits.induct)
  case (1 n)
  show ?case
  proof (cases "n < 10")
    case True
    then show ?thesis by (subst digits.simps) auto
  next
    case False
    with 1 obtain k cs where "k < 10" "digits (n div 10) = digit_char k # cs" by auto
    with False show ?thesis by (subst digits.simps) auto
  qed
qed

lemma digit_char_not_sign: "k < 10 \<Longrightarrow> digit_char k \<noteq> CHR ''-'' \<and> digit_char k \<noteq> CHR ''+''"
proof -
  assume "k < 10"
  then have v: "(of_char (digit_char k) :: nat) = 48 + k" by (simp add: digit_char_def)
  have "digit_char k \<noteq> CHR ''-''"
  proof
    assume "digit_char k = CHR ''-''"
    then have "(of_char (digit_char k) :: nat) = of_char CHR ''-''" by simp
    with v show False by simp
  qed
  moreover have "digit_char k \<noteq> CHR ''+''"
  proof
    assume "digit_char k = CHR ''+''"
    then have "(of_char (digit_char k) :: nat) = of_char CHR ''+''" by simp
    with v show False by simp
  qed
  ultimately show ?thesis by simp
qed

lemma parse_int_str: "parse_int (str i) = Some i"
proof (cases "i < 0")
  case True
  obtain k cs where "k < 10" "digits (nat (- i)) = digit_char k # cs"
    using digits_head by blast
  then have "digits (nat (- i)) \<noteq> []" by simp
  with True show ?thesis
    by (simp add: parse_int_def str_def parse_digits_digits)
next
  case False
  obtain k cs where k: "k < 10" "digits (nat i) = digit_char k # cs"
    using digits_head by blast
  have "parse_digits 0 (digit_char k # cs) = Some (nat i)"
    using parse_digits_digits [of "nat i"] k by simp
  with False k digit_char_not_sign [of k] show ?thesis
    by (simp add: parse_int_def str_def)
qed

lemma str_3: "str 3 = ''3''"
  by code_simp

section \<open>Login\<close>

lemma codec_roundtrip_subject:
  "codec_roundtrip create decode \<Longrightarrow> token_subject decode (create [(''sub'', s)]) = Some s"
proof -
  assume "codec_roundtrip create decode"
  then obtain payload where p: "decode (create [(''sub'', s)]) = Some payload"
      "map_of payload ''sub'' = Some s"
    unfolding codec_roundtrip_def by blast
  then have "payload \<noteq> []" by auto
  with p show ?thesis
    by (simp add: token_subject_def get_current_user_def)
qed

lemma ex_codec_roundtrip: "codec_roundtrip ex_create_token ex_decode_token"
  by (simp add: codec_roundtrip_def ex_create_token_def ex_decode_token_def)

text \<open>
  C4. The login handler takes no token. When the credential verifier returns no user for
  the submitted pair, login fails with 401 "Invalid credentials" and its result carries no
  token. When the verifier returns the user U, login returns the dictionary with
  \<open>access_token\<close>, the token issued for the claims \<open>{sub: U.username}\<close>, and
  \<open>token_type\<close> "bearer"; with a codec that gives back the subject it was asked to
  sign, the subject of the issued token is U.username.
\<close>

theorem login_issues_token_for_user:
  "(authenticate d (ul_username body) (ul_password body) = None \<longrightarrow>
      login authenticate create body d = Inl (HTTPException 401 ''Invalid credentials''))
   \<and> (authenticate d (ul_username body) (ul_password body) = Some U \<longrightarrow>
        login authenticate create body d
          = Inr [(''access_token'', create [(''sub'', username U)]), (''token_type'', ''bearer'')]
        \<and> (codec_roundtrip create decode \<longrightarrow>
             token_subject decode (create [(''sub'', username U)]) = Some (username U)))"
  by (simp add: login_def codec_roundtrip_subject)

text \<open>alice with a wrong password gets 401; with her password she gets a bearer token whose
  subject is alice.\<close>

theorem login_issues_token_for_user_witness:
  "authenticate_user ex_verify ex_db ''alice'' ''nope'' = None
   \<and> login (authenticate_user ex_verify) ex_create_token
        \<lparr>ul_username = ''alice'', ul_password = ''nope''\<rparr> ex_db
        = Inl (HTTPException 401 ''Invalid credentials'')
   \<and> authenticate_user ex_verify ex_db ''alice'' ''p1'' = Some alice
   \<and> login (authenticate_user ex_verify) ex_create_token
        \<lparr>ul_username = ''alice'', ul_password = ''p1''\<rparr> ex_db
        = Inr [(''access_token'', ''tok.alice''), (''token_type'', ''bearer'')]
   \<and> token_subject ex_decode_token ''tok.alice'' = Some ''alice''"
proof -
  have n: "authenticate_user ex_verify ex_db ''alice'' ''nope'' = None"
    by (simp add: authenticate_user_def first_def ex_defs)
  have s: "authenticate_user ex_verify ex_db ''alice'' ''p1'' = Some alice"
    by (simp add: authenticate_user_def first_def ex_defs)
  have t: "ex_create_token [(''sub'', username alice)] = ''tok.alice''"
    by (simp add: ex_create_token_def alice_def)
  note a = login_issues_token_for_user [where authenticate = "authenticate_user ex_verify"
      and d = ex_db and create = ex_create_token and decode = ex_decode_token]
  from a [where body = "\<lparr>ul_username = ''alice'', ul_password = ''nope''\<rparr>" and U = alice]
       a [where body = "\<lparr>ul_username = ''alice'', ul_password = ''p1''\<rparr>" and U = alice]
       n s t ex_codec_roundtrip
  show ?thesis by (simp add: alice_def)
qed

section \<open>Register\<close>

text \<open>
  C5. With a token the codec accepts and the service \<open>create_user\<close> as the spec describes
  it: when the username of the request is not in the table, register appends the new row,
  issues the token for the claims \<open>{sub: username}\<close> of the new row (whose subject, with a
  codec that gives back the subject it signed, is that username) and returns the response
  with this access_token, token_type "bearer", the message and the new user's id,
  username and email; when the username is in the table, register fails with Conflict and
  the table is as it was.
\<close>

theorem register_creates_user:
  assumes "decode token = Some payload" and "payload \<noteq> []"
  shows "(uc_username body \<notin> set (map username d) \<longrightarrow>
            register decode create (create_user hash_password assign_id) body token d
              = (Inr \<lparr>access_token = create [(''sub'', uc_username body)],
                      token_type = ''bearer'',
                      message = ''User registered successfully'',
                      user = [(''id'', JStr (str (assign_id d))),
                              (''username'', JStr (uc_username body)),
                              (''email'', JStr (uc_email body))]\<rparr>,
                 d @ [\<lparr>user_id = assign_id d, username = uc_username body,
                        email = uc_email body,
                        password_hash = hash_password (uc_password body)\<rparr>])
          \<and> (codec_roundtrip create decode \<longrightarrow>
                token_subject decode (create [(''sub'', uc_username body)]) = Some (uc_username body)))
       \<and> (uc_username body \<in> set (map username d) \<longrightarrow>
            register decode create (create_user hash_password assign_id) body token d
              = (Inl Conflict, d))"
proof -
  have "get_current_user decode token = Inr payload"
    using assms by (rule get_current_user_valid)
  then show ?thesis
    by (simp add: register_def create_user_def Let_def codec_roundtrip_subject)
qed

text \<open>bob's token registers carol on the example table (id 3); registering carol again on
  the new table is a Conflict.\<close>

theorem register_creates_user_witness:
  "ex_decode_token ''tok.bob'' = Some [(''sub'', ''bob'')]
   \<and> register ex_decode_token ex_create_token (create_user ex_hash ex_assign_id) carol ''tok.bob'' ex_db
        = (Inr \<lparr>access_token = ''tok.carol'', token_type = ''bearer'',
                message = ''User registered successfully'',
                user = [(''id'', JStr ''3''), (''username'', JStr ''carol''),
                        (''email'', JStr ''c@x.com'')]\<rparr>,
           [alice, bob, \<lparr>user_id = 3, username = ''carol'', email = ''c@x.com'',
                          password_hash = ''h:p3''\<rparr>])
   \<and> token_subject ex_decode_token ''tok.carol'' = Some ''carol''
   \<and> register ex_decode_token ex_create_token (create_user ex_hash ex_assign_id) carol ''tok.bob''
        [alice, bob, \<lparr>user_id = 3, username = ''carol'', email = ''c@x.com'', password_hash = ''h:p3''\<rparr>]
        = (Inl Conflict,
           [alice, bob, \<lparr>user_id = 3, username = ''carol'', email = ''c@x.com'', password_hash = ''h:p3''\<rparr>])"
proof -
  have h: "ex_decode_token ''tok.bob'' = Some [(''sub'', ''bob'')]"
    by (simp add: ex_decode_token_def)
  have n: "[(''sub'', ''bob'')] \<noteq> []" by simp
  have i: "str (ex_assign_id ex_db) = ''3''"
    by (simp add: ex_defs str_3)
  note a = register_creates_user [where decode = ex_decode_token and token = "''tok.bob''"
      and create = ex_create_token and hash_password = ex_hash and assign_id = ex_assign_id
      and body = carol, OF h n]
  from a [where d = ex_db]
       a [where d = "[alice, bob, \<lparr>user_id = 3, username = ''carol'', email = ''c@x.com'',
                                  password_hash = ''h:p3''\<rparr>]"]
       h i ex_codec_roundtrip
  show ?thesis
    by (simp add: ex_defs)
qed

text \<open>
  C10. Whatever \<open>create_user\<close> is: when register succeeds, the entry \<open>id\<close> of the
  response's \<open>user\<close> dictionary is a string, \<open>str\<close> of the id of the row that
  \<open>create_user\<close> returned, and not that integer; \<open>str\<close> is the decimal rendering, read
  back by \<open>parse_int\<close>.
\<close>

theorem register_id_is_decimal_string:
  assumes "register decode create make_user body token d = (Inr resp, d')"
  shows "\<exists>db_user. make_user body d = (Inr db_user, d')
           \<and> map_of (user resp) ''id'' = Some (JStr (str (user_id db_user)))
           \<and> map_of (user resp) ''id'' \<noteq> Some (JInt (user_id db_user))
           \<and> parse_int (str (user_id db_user)) = Some (user_id db_user)"
proof -
  from assms obtain db_user where m: "make_user body d = (Inr db_user, d')"
    and r: "resp = \<lparr>access_token = create [(''sub'', username db_user)],
                     token_type = ''bearer'',
                     message = ''User registered successfully'',
                     user = [(''id'', JStr (str (user_id db_user))),
                             (''username'', JStr (username db_user)),
                             (''email'', JStr (email db_user))]\<rparr>"
    by (auto simp: register_def split: sum.splits prod.splits)
  from r have "map_of (user resp) ''id'' = Some (JStr (str (user_id db_user)))" by simp
  with m show ?thesis by (auto simp: parse_int_str)
qed

text \<open>The row with id 3 is answered with the string "3".\<close>

theorem register_id_is_decimal_string_witness:
  "\<exists>resp d'. register ex_decode_token ex_create_token (create_user ex_hash ex_assign_id) carol ''tok.bob'' ex_db
        = (Inr resp, d')
     \<and> map_of (user resp) ''id'' = Some (JStr ''3'') \<and> parse_int ''3'' = Some 3"
proof -
  have e: "register ex_decode_token ex_create_token (create_user ex_hash ex_assign_id) carol ''tok.bob'' ex_db
        = (Inr \<lparr>access_token = ''tok.carol'', token_type = ''bearer'',
                message = ''User registered successfully'',
                user = [(''id'', JStr ''3''), (''username'', JStr ''carol''),
                        (''email'', JStr ''c@x.com'')]\<rparr>,
           [alice, bob, \<lparr>user_id = 3, username = ''carol'', email = ''c@x.com'',
                          password_hash = ''h:p3''\<rparr>])"
    by (simp add: handler_defs create_user_def ex_defs str_3)
  have c: "create_user ex_hash ex_assign_id carol ex_db
        = (Inr \<lparr>user_id = 3, username = ''carol'', email = ''c@x.com'', password_hash = ''h:p3''\<rparr>,
           [alice, bob, \<lparr>user_id = 3, username = ''carol'', email = ''c@x.com'',
                          password_hash = ''h:p3''\<rparr>])"
    by (simp add: create_user_def ex_defs Let_def)
  from register_id_is_decimal_string [OF e] obtain db_user where
    m: "create_user ex_hash ex_assign_id carol ex_db
        = (Inr db_user, [alice, bob, \<lparr>user_id = 3, username = ''carol'', email = ''c@x.com'',
                                       password_hash = ''h:p3''\<rparr>])"
    and p: "parse_int (str (user_id db_user)) = Some (user_id db_user)"
    by blast
  from m c have "db_user = \<lparr>user_id = 3, username = ''carol'', email = ''c@x.com'',
      password_hash = ''h:p3''\<rparr>" by simp
  then have "user_id db_user = 3" by simp
  with p have "parse_int (str 3) = Some 3" by simp
  with e show ?thesis by (simp add: str_3)
qed

section \<open>Update\<close>

lemma flush_update_by_index:
  assumes "distinct (map user_id d)" and "i < length d" and "user_id (d ! i) = user_id obj"
  shows "flush_update d obj = d[i := (d ! i)\<lparr>username := username obj, email := email obj\<rparr>]"
proof (rule nth_equalityI)
  show "length (flush_update d obj) = length (d[i := (d ! i)\<lparr>username := username obj, email := email obj\<rparr>])"
    by (simp add: flush_update_def)
next
  fix j assume "j < length (flush_update d obj)"
  then have j: "j < length d" by (simp add: flush_update_def)
  show "flush_update d obj ! j = d[i := (d ! i)\<lparr>username := username obj, email := email obj\<rparr>] ! j"
  proof (cases "j = i")
    case True
    with assms j show ?thesis by (simp add: flush_update_def)
  next
    case False
    have "map user_id d ! j \<noteq> map user_id d ! i"
      using nth_eq_iff_index_eq [OF assms(1), of j i] assms(2) j False by simp
    with assms j have "user_id (d ! j) \<noteq> user_id obj" by simp
    with j False show ?thesis by (simp add: flush_update_def)
  qed
qed

text \<open>
  C6. When Update succeeds, a stored row U has the requested id and the token's subject as
  username; the handler returns U with username and email taken from the body; the new
  table is the old one with these two columns overwritten in the rows with U's id, so the
  ids and the password hashes of all rows are as before and the rows with another id are
  unchanged; with ids that are unique, the new table is the old one with the single row U
  replaced. The password in the body plays no part: any other password gives the same
  result.
\<close>

theorem update_overwrites_username_and_email_only:
  assumes "update_user ok decode ident body token d = (Inr r', d')"
  shows "(\<exists>U \<in> set d. user_id U = ident \<and> token_subject decode token = Some (username U)
            \<and> r' = U\<lparr>username := uc_username body, email := uc_email body\<rparr>
            \<and> user_id r' = user_id U \<and> password_hash r' = password_hash U)
       \<and> d' = map (\<lambda>r. if user_id r = ident
                         then r\<lparr>username := uc_username body, email := uc_email body\<rparr> else r) d
       \<and> map user_id d' = map user_id d
       \<and> map password_hash d' = map password_hash d
       \<and> filter (\<lambda>r. user_id r \<noteq> ident) d' = filter (\<lambda>r. user_id r \<noteq> ident) d
       \<and> (distinct (map user_id d) \<longrightarrow>
            (\<exists>i < length d. user_id (d ! i) = ident
               \<and> d' = d[i := (d ! i)\<lparr>username := uc_username body, email := uc_email body\<rparr>]))
       \<and> update_user ok decode ident (body\<lparr>uc_password := pw\<rparr>) token d = (Inr r', d')"
proof -
  from assms obtain payload sub U where p: "get_current_user decode token = Inr payload"
      "getitem payload ''sub'' = Inr sub" "first (query_owned d ident sub) = Some U"
    by (auto simp: update_user_def split: sum.splits option.splits)
  let ?U' = "U\<lparr>username := uc_username body, email := uc_email body\<rparr>"
  from assms p have ok: "ok (flush_update d ?U')" and r': "r' = ?U'" and d': "d' = flush_update d ?U'"
    by (auto simp: update_user_def commit_def Let_def split: if_splits)
  from query_owned_SomeD [OF p(3)] have U: "U \<in> set d" "user_id U = ident" "username U = sub"
    by simp_all
  have sub: "token_subject decode token = Some (username U)"
    using token_subject_SomeI [OF p(1,2)] U by simp
  have m: "d' = map (\<lambda>r. if user_id r = ident
                         then r\<lparr>username := uc_username body, email := uc_email body\<rparr> else r) d"
    using d' U by (simp add: flush_update_def)
  have ids: "map user_id d' = map user_id d" and hashes: "map password_hash d' = map password_hash d"
    unfolding m by (simp_all add: comp_def if_distrib cong: if_cong)
  have others: "filter (\<lambda>r. user_id r \<noteq> ident) d' = filter (\<lambda>r. user_id r \<noteq> ident) d"
    unfolding m by (induction d) auto
  have single: "\<exists>i < length d. user_id (d ! i) = ident
               \<and> d' = d[i := (d ! i)\<lparr>username := uc_username body, email := uc_email body\<rparr>]"
    if dist: "distinct (map user_id d)"
  proof -
    from U(1) obtain i where i: "i < length d" "d ! i = U" by (auto simp: in_set_conv_nth)
    with U have "user_id (d ! i) = user_id ?U'" by simp
    from flush_update_by_index [OF dist i(1) this] i U d' show ?thesis by auto
  qed
  have pw: "update_user ok decode ident (body\<lparr>uc_password := pw\<rparr>) token d = (Inr r', d')"
    using p ok r' d' by (simp add: update_user_def commit_def Let_def)
  from U sub r' m ids hashes others single pw show ?thesis by auto
qed

text \<open>alice renames herself on the example table: her row keeps id 1 and its hash, bob's
  row is untouched, and a different password in the body changes nothing.\<close>

theorem update_overwrites_username_and_email_only_witness:
  "update_user ex_commit_ok ex_decode_token 1 carol ''tok.alice'' ex_db
     = (Inr \<lparr>user_id = 1, username = ''carol'', email = ''c@x.com'', password_hash = ''h:p1''\<rparr>,
        [\<lparr>user_id = 1, username = ''carol'', email = ''c@x.com'', password_hash = ''h:p1''\<rparr>, bob])
   \<and> distinct (map user_id ex_db)
   \<and> update_user ex_commit_ok ex_decode_token 1 (carol\<lparr>uc_password := ''other''\<rparr>) ''tok.alice'' ex_db
     = (Inr \<lparr>user_id = 1, username = ''carol'', email = ''c@x.com'', password_hash = ''h:p1''\<rparr>,
        [\<lparr>user_id = 1, username = ''carol'', email = ''c@x.com'', password_hash = ''h:p1''\<rparr>, bob])"
proof -
  have e: "update_user ex_commit_ok ex_decode_token 1 carol ''tok.alice'' ex_db
     = (Inr \<lparr>user_id = 1, username = ''carol'', email = ''c@x.com'', password_hash = ''h:p1''\<rparr>,
        [\<lparr>user_id = 1, username = ''carol'', email = ''c@x.com'', password_hash = ''h:p1''\<rparr>, bob])"
    by (simp add: handler_defs ex_defs)
  have dist: "distinct (map user_id ex_db)" by (simp add: ex_defs)
  from update_overwrites_username_and_email_only [OF e, of "''other''"] e dist
  show ?thesis by simp
qed

section \<open>Delete\<close>

text \<open>
  C7. After a successful Delete of an id, a second Delete with the same id and the same
  token on the resulting table fails with 404 "User not found" and returns that table
  unchanged.
\<close>

theorem delete_twice_not_found:
  assumes "delete_user_me ok decode ident token d = (Inr m, d')"
  shows "delete_user_me ok decode ident token d' = (Inl NotFound, d')"
proof -
  from assms obtain payload sub U where p: "get_current_user decode token = Inr payload"
      "getitem payload ''sub'' = Inr sub" "first (query_owned d ident sub) = Some U"
    by (auto simp: delete_user_me_def split: sum.splits option.splits)
  from assms p have d': "d' = flush_delete d U"
    by (auto simp: delete_user_me_def commit_def split: if_splits)
  from query_owned_SomeD [OF p(3)] have "user_id U = ident" by simp
  with d' have "query_owned d' ident sub = []"
    by (auto simp: query_owned_def flush_delete_def filter_empty_conv)
  with p show ?thesis
    by (simp add: delete_user_me_def first_def)
qed

text \<open>alice deletes her row; the same request again is a 404 and bob's row stays.\<close>

theorem delete_twice_not_found_witness:
  "delete_user_me ex_commit_ok ex_decode_token 1 ''tok.alice'' ex_db
     = (Inr [(''message'', ''User deleted successfully'')], [bob])
   \<and> delete_user_me ex_commit_ok ex_decode_token 1 ''tok.alice'' [bob] = (Inl NotFound, [bob])"
proof -
  have e: "delete_user_me ex_commit_ok ex_decode_token 1 ''tok.alice'' ex_db
     = (Inr [(''message'', ''User deleted successfully'')], [bob])"
    by (simp add: handler_defs ex_defs)
  from delete_twice_not_found [OF e] e show ?thesis by simp
qed

section \<open>No password hash in a response\<close>

lemma field_names_UserOut: "field_names (UserOut u) = [''id'', ''username'', ''email'']"
  by (simp add: UserOut_def)

lemma field_names_List_of_UserOut:
  "set (field_names (List_of UserOut rows)) \<subseteq> {''id'', ''username'', ''email''}"
proof -
  have "set (field_names_list (map UserOut rows)) \<subseteq> {''id'', ''username'', ''email''}"
    by (induction rows) (simp_all add: field_names_UserOut)
  then show ?thesis by (simp add: List_of_def)
qed

lemma UserOut_ignores_hash: "UserOut (u\<lparr>password_hash := x\<rparr>) = UserOut u"
  by (simp add: UserOut_def)

lemma first_map: "first (map f rows) = map_option f (first rows)"
  by (cases rows) (simp_all add: first_def)

lemma query_owned_rehash:
  "query_owned (map (\<lambda>u. u\<lparr>password_hash := h u\<rparr>) d) ident sub
     = map (\<lambda>u. u\<lparr>password_hash := h u\<rparr>) (query_owned d ident sub)"
  by (simp add: query_owned_def filter_map comp_def)

text \<open>
  C8. The body of every success response, as its route's response model writes it, has no
  field named \<open>password_hash\<close> (nor \<open>password\<close>): register answers with access_token,
  token_type, message and user (id, username, email); login with access_token and
  token_type; get-by-id and update with id, username, email; delete with message; list-all
  with a list of such user objects. Get-by-id and list-all answer the same whatever the
  stored hashes are.
\<close>

theorem responses_exclude_password_hash:
  "(response_model UserResponse_json (fst (register decode create make_user body token d)) = Inr j1 \<longrightarrow>
      field_names j1 = [''access_token'', ''token_type'', ''message'', ''user'', ''id'', ''username'', ''email'']
      \<and> ''password_hash'' \<notin> set (field_names j1) \<and> ''password'' \<notin> set (field_names j1))
   \<and> (response_model Dict_json (login authenticate create lbody d) = Inr j2 \<longrightarrow>
      field_names j2 = [''access_token'', ''token_type'']
      \<and> ''password_hash'' \<notin> set (field_names j2) \<and> ''password'' \<notin> set (field_names j2))
   \<and> (response_model UserOut (read_users_me decode ident token d) = Inr j3 \<longrightarrow>
      field_names j3 = [''id'', ''username'', ''email'']
      \<and> ''password_hash'' \<notin> set (field_names j3) \<and> ''password'' \<notin> set (field_names j3))
   \<and> (response_model UserOut (fst (update_user ok decode ident body token d)) = Inr j4 \<longrightarrow>
      field_names j4 = [''id'', ''username'', ''email'']
      \<and> ''password_hash'' \<notin> set (field_names j4) \<and> ''password'' \<notin> set (field_names j4))
   \<and> (response_model Dict_json (fst (delete_user_me ok decode ident token d)) = Inr j5 \<longrightarrow>
      field_names j5 = [''message'']
      \<and> ''password_hash'' \<notin> set (field_names j5) \<and> ''password'' \<notin> set (field_names j5))
   \<and> (response_model (List_of UserOut) (read_users_all decode token d) = Inr j6 \<longrightarrow>
      set (field_names j6) \<subseteq> {''id'', ''username'', ''email''}
      \<and> ''password_hash'' \<notin> set (field_names j6) \<and> ''password'' \<notin> set (field_names j6))
   \<and> response_model UserOut (read_users_me decode ident token (map (\<lambda>u. u\<lparr>password_hash := h u\<rparr>) d))
        = response_model UserOut (read_users_me decode ident token d)
   \<and> response_model (List_of UserOut) (read_users_all decode token (map (\<lambda>u. u\<lparr>password_hash := h u\<rparr>) d))
        = response_model (List_of UserOut) (read_users_all decode token d)"
proof -
  have reg: "field_names j1 = [''access_token'', ''token_type'', ''message'', ''user'', ''id'', ''username'', ''email'']"
    if "response_model UserResponse_json (fst (register decode create make_user body token d)) = Inr j1"
    using that
    by (auto simp: response_model_def register_def UserResponse_json_def
        split: sum.splits prod.splits)
  have log: "field_names j2 = [''access_token'', ''token_type'']"
    if "response_model Dict_json (login authenticate create lbody d) = Inr j2"
    using that
    by (auto simp: response_model_def login_def Dict_json_def split: sum.splits option.splits)
  have get: "field_names j3 = [''id'', ''username'', ''email'']"
    if "response_model UserOut (read_users_me decode ident token d) = Inr j3"
    using that
    by (auto simp: response_model_def field_names_UserOut split: sum.splits)
  have upd: "field_names j4 = [''id'', ''username'', ''email'']"
    if "response_model UserOut (fst (update_user ok decode ident body token d)) = Inr j4"
    using that
    by (auto simp: response_model_def field_names_UserOut split: sum.splits)
  have del: "field_names j5 = [''message'']"
    if "response_model Dict_json (fst (delete_user_me ok decode ident token d)) = Inr j5"
    using that
    by (auto simp: response_model_def delete_user_me_def commit_def Dict_json_def
        split: sum.splits option.splits if_splits)
  have lst: "set (field_names j6) \<subseteq> {''id'', ''username'', ''email''}"
    if "response_model (List_of UserOut) (read_users_all decode token d) = Inr j6"
  proof -
    from that obtain rows where "j6 = List_of UserOut rows"
      by (auto simp: response_model_def split: sum.splits)
    then show ?thesis by (simp only: field_names_List_of_UserOut)
  qed
  have get_ni: "response_model UserOut (read_users_me decode ident token (map (\<lambda>u. u\<lparr>password_hash := h u\<rparr>) d))
        = response_model UserOut (read_users_me decode ident token d)"
    by (auto simp: response_model_def read_users_me_def query_owned_rehash first_map
        UserOut_ignores_hash split: sum.splits option.splits)
  have lst_ni: "response_model (List_of UserOut) (read_users_all decode token (map (\<lambda>u. u\<lparr>password_hash := h u\<rparr>) d))
        = response_model (List_of UserOut) (read_users_all decode token d)"
    by (auto simp: response_model_def read_users_all_def List_of_def comp_def
        UserOut_ignores_hash split: sum.splits)
  have lst': "''password_hash'' \<notin> set (field_names j6) \<and> ''password'' \<notin> set (field_names j6)"
    if "response_model (List_of UserOut) (read_users_all decode token d) = Inr j6"
    using lst [OF that] by auto
  show ?thesis
    using reg log get upd del lst lst' get_ni lst_ni by simp
qed

text \<open>The six responses on the example table; the table with every hash replaced by
  \<open>''x''\<close> gives the same answers to get-by-id and list-all.\<close>

theorem responses_exclude_password_hash_witness:
  "response_model UserResponse_json
      (fst (register ex_decode_token ex_create_token (create_user ex_hash ex_assign_id) carol ''tok.bob'' ex_db))
     = Inr (JDict [(''access_token'', JStr ''tok.carol''), (''token_type'', JStr ''bearer''),
                   (''message'', JStr ''User registered successfully''),
                   (''user'', JDict [(''id'', JStr ''3''), (''username'', JStr ''carol''),
                                     (''email'', JStr ''c@x.com'')])])
   \<and> response_model Dict_json
        (login (authenticate_user ex_verify) ex_create_token \<lparr>ul_username = ''alice'', ul_password = ''p1''\<rparr> ex_db)
       = Inr (JDict [(''access_token'', JStr ''tok.alice''), (''token_type'', JStr ''bearer'')])
   \<and> response_model UserOut (read_users_me ex_decode_token 1 ''tok.alice'' ex_db)
       = Inr (JDict [(''id'', JInt 1), (''username'', JStr ''alice''), (''email'', JStr ''a@x.com'')])
   \<and> response_model UserOut (fst (update_user ex_commit_ok ex_decode_token 1 carol ''tok.alice'' ex_db))
       = Inr (JDict [(''id'', JInt 1), (''username'', JStr ''carol''), (''email'', JStr ''c@x.com'')])
   \<and> response_model Dict_json (fst (delete_user_me ex_commit_ok ex_decode_token 1 ''tok.alice'' ex_db))
       = Inr (JDict [(''message'', JStr ''User deleted successfully'')])
   \<and> response_model (List_of UserOut) (read_users_all ex_decode_token ''tok.alice'' ex_db)
       = Inr (JList [JDict [(''id'', JInt 1), (''username'', JStr ''alice''), (''email'', JStr ''a@x.com'')],
                     JDict [(''id'', JInt 2), (''username'', JStr ''bob''), (''email'', JStr ''b@x.com'')]])
   \<and> ''password_hash'' \<notin> set (field_names
         (JDict [(''access_token'', JStr ''tok.carol''), (''token_type'', JStr ''bearer''),
                 (''message'', JStr ''User registered successfully''),
                 (''user'', JDict [(''id'', JStr ''3''), (''username'', JStr ''carol''),
                                   (''email'', JStr ''c@x.com'')])]))
   \<and> response_model (List_of UserOut)
        (read_users_all ex_decode_token ''tok.alice'' (map (\<lambda>u. u\<lparr>password_hash := ''x''\<rparr>) ex_db))
       = Inr (JList [JDict [(''id'', JInt 1), (''username'', JStr ''alice''), (''email'', JStr ''a@x.com'')],
                     JDict [(''id'', JInt 2), (''username'', JStr ''bob''), (''email'', JStr ''b@x.com'')]])"
proof -
  have r: "response_model UserResponse_json
      (fst (register ex_decode_token ex_create_token (create_user ex_hash ex_assign_id) carol ''tok.bob'' ex_db))
     = Inr (JDict [(''access_token'', JStr ''tok.carol''), (''token_type'', JStr ''bearer''),
                   (''message'', JStr ''User registered successfully''),
                   (''user'', JDict [(''id'', JStr ''3''), (''username'', JStr ''carol''),
                                     (''email'', JStr ''c@x.com'')])])"
    by (simp add: handler_defs create_user_def UserResponse_json_def ex_defs str_3)
  have l: "response_model Dict_json
        (login (authenticate_user ex_verify) ex_create_token \<lparr>ul_username = ''alice'', ul_password = ''p1''\<rparr> ex_db)
       = Inr (JDict [(''access_token'', JStr ''tok.alice''), (''token_type'', JStr ''bearer'')])"
    by (simp add: handler_defs authenticate_user_def Dict_json_def ex_defs)
  have g: "response_model UserOut (read_users_me ex_decode_token 1 ''tok.alice'' ex_db)
       = Inr (JDict [(''id'', JInt 1), (''username'', JStr ''alice''), (''email'', JStr ''a@x.com'')])"
    by (simp add: handler_defs UserOut_def ex_defs)
  have u: "response_model UserOut (fst (update_user ex_commit_ok ex_decode_token 1 carol ''tok.alice'' ex_db))
       = Inr (JDict [(''id'', JInt 1), (''username'', JStr ''carol''), (''email'', JStr ''c@x.com'')])"
    by (simp add: handler_defs UserOut_def ex_defs)
  have e: "response_model Dict_json (fst (delete_user_me ex_commit_ok ex_decode_token 1 ''tok.alice'' ex_db))
       = Inr (JDict [(''message'', JStr ''User deleted successfully'')])"
    by (simp add: handler_defs Dict_json_def ex_defs)
  have a: "response_model (List_of UserOut) (read_users_all ex_decode_token ''tok.alice'' ex_db)
       = Inr (JList [JDict [(''id'', JInt 1), (''username'', JStr ''alice''), (''email'', JStr ''a@x.com'')],
                     JDict [(''id'', JInt 2), (''username'', JStr ''bob''), (''email'', JStr ''b@x.com'')]])"
    by (simp add: handler_defs List_of_def UserOut_def ex_defs)
  note t = responses_exclude_password_hash [where decode = ex_decode_token
      and create = ex_create_token and make_user = "create_user ex_hash ex_assign_id"
      and body = carol and token = "''tok.alice''" and d = ex_db
      and authenticate = "authenticate_user ex_verify"
      and lbody = "\<lparr>ul_username = ''alice'', ul_password = ''p1''\<rparr>"
      and ident = 1 and ok = ex_commit_ok and h = "\<lambda>u. ''x''"]
  note t' = responses_exclude_password_hash [where decode = ex_decode_token
      and create = ex_create_token and make_user = "create_user ex_hash ex_assign_id"
      and body = carol and token = "''tok.bob''" and d = ex_db]
  from r l g u e a t t' show ?thesis by simp
qed

section \<open>The order of the routes\<close>

lemma match_path_single:
  "match_path [p] path =
     (case path of
        [s] \<Rightarrow> (case p of Lit l \<Rightarrow> if s = l then Some [] else None
                          | Param n \<Rightarrow> if s = [] then None else Some [(n, s)])
      | _ \<Rightarrow> None)"
proof (cases path)
  case Nil
  then show ?thesis by (cases p) simp_all
next
  case (Cons s rest)
  then show ?thesis by (cases p; cases rest) simp_all
qed

text \<open>
  C9. In the route table of the module, \<^verbatim>\<open>GET /{id}\<close> stands before \<^verbatim>\<open>GET /all\<close>. With
  the router's rule (first match in the order of registration), the request \<^verbatim>\<open>GET /all\<close>
  goes to the get-by-id handler with the parameter id bound to the text "all", whose
  conversion to an integer fails whatever the framework's conversion accepts otherwise (a
  validation error, not a list of users); and no request at all is dispatched to the
  list-all handler.
\<close>

theorem get_all_is_shadowed_by_get_by_id:
  "routes ! 2 = (GET, [Param ''id''], ReadUsersMe)
   \<and> routes ! 5 = (GET, [Lit ''all''], ReadUsersAll)
   \<and> dispatch routes GET [''all''] = Some (ReadUsersMe, [(''id'', ''all'')])
   \<and> int_path_param to_int ''all'' = Inl RequestValidationError
   \<and> (\<forall>m path bs. dispatch routes m path \<noteq> Some (ReadUsersAll, bs))"
proof -
  have order: "routes ! 2 = (GET, [Param ''id''], ReadUsersMe)"
      "routes ! 5 = (GET, [Lit ''all''], ReadUsersAll)"
    by (simp_all add: routes_def)
  have d: "dispatch routes GET [''all''] = Some (ReadUsersMe, [(''id'', ''all'')])"
    by (simp add: routes_def)
  have i: "int_path_param to_int ''all'' = Inl RequestValidationError"
    by (simp add: int_path_param_def ascii_letter_def)
  have never: "dispatch routes m path \<noteq> Some (ReadUsersAll, bs)" for m path bs
    by (cases m) (auto simp: routes_def match_path_single split: list.splits option.splits)
  from order d i never show ?thesis by blast
qed

text \<open>The documented request for the list, one for a number, and one with an empty
  segment: none reaches list-all.\<close>

theorem get_all_is_shadowed_by_get_by_id_witness:
  "dispatch routes GET [''all''] = Some (ReadUsersMe, [(''id'', ''all'')])
   \<and> dispatch routes GET [''all''] \<noteq> Some (ReadUsersAll, [])
   \<and> dispatch routes GET [''7''] = Some (ReadUsersMe, [(''id'', ''7'')])
   \<and> int_path_param parse_int ''7'' = Inr 7
   \<and> int_path_param parse_int ''all'' = Inl RequestValidationError"
proof -
  have "dispatch routes GET [''7''] = Some (ReadUsersMe, [(''id'', ''7'')])"
    by (simp add: routes_def)
  moreover have "int_path_param parse_int ''7'' = Inr 7"
    by (simp add: int_path_param_def ascii_letter_def parse_int_def digit_val_def)
  ultimately show ?thesis
    using get_all_is_shadowed_by_get_by_id by blast
qed

section \<open>The conversion of the path parameter\<close>

lemma parse_digits_letter: "list_ex ascii_letter s \<Longrightarrow> parse_digits acc s = None"
proof (induction s arbitrary: acc)
  case Nil
  then show ?case by simp
next
  case (Cons c cs)
  show ?case
  proof (cases "digit_val c")
    case None
    then show ?thesis by simp
  next
    case (Some v)
    then have "\<not> ascii_letter c"
      by (auto simp: digit_val_def ascii_letter_def split: if_splits)
    with Cons.prems have "list_ex ascii_letter cs" by simp
    with Cons.IH Some show ?thesis by simp
  qed
qed

lemma parse_int_letter: "list_ex ascii_letter s \<Longrightarrow> parse_int s = None"
proof (cases s)
  case Nil
  then show ?thesis by (simp add: parse_int_def)
next
  case (Cons c cs)
  assume l: "list_ex ascii_letter s"
  have sign: "\<not> ascii_letter CHR ''-''" "\<not> ascii_letter CHR ''+''"
    by (simp_all add: ascii_letter_def)
  show ?thesis
  proof (cases "c = CHR ''-'' \<or> c = CHR ''+''")
    case True
    with l Cons sign have "list_ex ascii_letter cs" by auto
    then have "parse_digits 0 cs = None" by (rule parse_digits_letter)
    with True Cons show ?thesis by (auto simp: parse_int_def)
  next
    case False
    from l have "parse_digits 0 s = None" by (rule parse_digits_letter)
    with False Cons show ?thesis by (simp add: parse_int_def)
  qed
qed

text \<open>With the decimal literals as the conversion, the guard of \<open>int_path_param\<close> rejects
  nothing that the conversion would accept.\<close>

lemma int_path_param_parse_int:
  "int_path_param parse_int s
     = (case parse_int s of None \<Rightarrow> Inl RequestValidationError | Some i \<Rightarrow> Inr i)"
  by (simp add: int_path_param_def parse_int_letter)

section \<open>The request for the list\<close>

lemma dispatch_routes_GET:
  "dispatch routes GET path =
     (case path of
        [s] \<Rightarrow> if s = [] then None else Some (ReadUsersMe, [(''id'', s)])
      | _ \<Rightarrow> None)"
  by (auto simp: routes_def match_path_single split: list.splits)

text \<open>
  C3 (the code departs from the claim). The claim: for every valid token, list-all returns
  every user record. The handler does so when it is called (\<open>read_users_all_returns_table\<close>),
  but the request that the spec documents for it, \<^verbatim>\<open>GET /all\<close>, is answered by the
  application with a validation error, for every token, every table and every conversion
  of the path parameter; and no GET request at all is answered with a list.
\<close>

theorem get_all_request_does_not_list_users:
  "serve_get decode to_int [''all''] token d = Inl RequestValidationError
   \<and> (\<forall>path js. serve_get decode to_int path token d \<noteq> Inr (JList js))"
proof -
  have a: "serve_get decode to_int [''all''] token d = Inl RequestValidationError"
    by (simp add: serve_get_def dispatch_routes_GET int_path_param_def ascii_letter_def)
  have n: "serve_get decode to_int path token d \<noteq> Inr (JList js)" for path js
    by (auto simp: serve_get_def dispatch_routes_GET response_model_def UserOut_def
        split: list.splits sum.splits)
  from a n show ?thesis by blast
qed

text \<open>On the example table with alice's token: the handler would list both rows, the
  request \<^verbatim>\<open>GET /all\<close> is a validation error, and \<^verbatim>\<open>GET /1\<close> is alice's row, not a list.\<close>

theorem get_all_request_does_not_list_users_witness:
  "response_model (List_of UserOut) (read_users_all ex_decode_token ''tok.alice'' ex_db)
     = Inr (JList [JDict [(''id'', JInt 1), (''username'', JStr ''alice''), (''email'', JStr ''a@x.com'')],
                   JDict [(''id'', JInt 2), (''username'', JStr ''bob''), (''email'', JStr ''b@x.com'')]])
   \<and> serve_get ex_decode_token parse_int [''all''] ''tok.alice'' ex_db = Inl RequestValidationError
   \<and> serve_get ex_decode_token parse_int [''1''] ''tok.alice'' ex_db
       = Inr (JDict [(''id'', JInt 1), (''username'', JStr ''alice''), (''email'', JStr ''a@x.com'')])
   \<and> serve_get ex_decode_token parse_int [''all''] ''tok.alice'' ex_db
       \<noteq> Inr (JList [JDict [(''id'', JInt 1), (''username'', JStr ''alice''), (''email'', JStr ''a@x.com'')],
                     JDict [(''id'', JInt 2), (''username'', JStr ''bob''), (''email'', JStr ''b@x.com'')]])"
proof -
  have l: "response_model (List_of UserOut) (read_users_all ex_decode_token ''tok.alice'' ex_db)
     = Inr (JList [JDict [(''id'', JInt 1), (''username'', JStr ''alice''), (''email'', JStr ''a@x.com'')],
                   JDict [(''id'', JInt 2), (''username'', JStr ''bob''), (''email'', JStr ''b@x.com'')]])"
    by (simp add: handler_defs List_of_def UserOut_def ex_defs)
  have g: "serve_get ex_decode_token parse_int [''1''] ''tok.alice'' ex_db
       = Inr (JDict [(''id'', JInt 1), (''username'', JStr ''alice''), (''email'', JStr ''a@x.com'')])"
    by (simp add: serve_get_def dispatch_routes_GET int_path_param_def ascii_letter_def
        parse_int_def digit_val_def handler_defs UserOut_def ex_defs)
  from get_all_request_does_not_list_users [of ex_decode_token parse_int "''tok.alice''" ex_db] l g
  show ?thesis by blast
qed

end
